theory Spec2Isabelle
  imports Complex_Main "HOL-Library.AList"
begin

section \<open>Values of the plugin's configuration\<close>

text \<open>
  A Buffer is a list of bytes; a character of HOL is a byte, so a JavaScript string
  (taken in its UTF-8 encoding) and a Buffer share the carrier, and
  \<^verbatim>\<open>Buffer.from(string)\<close> is the identity on it.
\<close>

type_synonym buffer = "char list"

text \<open>An \<^verbatim>\<open>Error\<close> object, by its message.\<close>

datatype error = Error string

text \<open>
  The option object handed to the algorithm (\<^verbatim>\<open>compressionOptions\<close>): an object
  literal, as the list of its own properties in insertion order. A property value is
  a number or a nested object.
\<close>

datatype optval = ONum int | OObj "(string \<times> optval) list"

type_synonym copts = "(string \<times> optval) list"

text \<open>
  What an algorithm hands to its callback: an error, or a result that is a Buffer or a
  string (the callback's \<^verbatim>\<open>result\<close>).
\<close>

datatype algresult = ResBuffer buffer | ResString string

type_synonym algfn = "buffer \<Rightarrow> copts \<Rightarrow> error + algresult"

text \<open>
  \<^verbatim>\<open>options.algorithm\<close> is a string or a function. A function value carries the text
  that \<^verbatim>\<open>serialize-javascript\<close> prints for it, and its behaviour.
\<close>

datatype algorithm = AlgString string | AlgFunction string algfn

text \<open>
  \<^verbatim>\<open>options.filename\<close> is a template string or a function of the path data; the
  function is given by its serialized text and its result on the asset's name.
\<close>

datatype filename = FilenameString string | FilenameFunction string "string \<Rightarrow> string"

text \<open>\<^verbatim>\<open>options.deleteOriginalAssets\<close>: a boolean, "keep-source-map", or a predicate on names.\<close>

datatype deleteOriginalAssets =
  DelBool bool | DelKeepSourceMap | DelFunction "string \<Rightarrow> bool"

text \<open>A rule of \<^verbatim>\<open>test\<close>, \<^verbatim>\<open>include\<close>, \<^verbatim>\<open>exclude\<close>: a string, or a RegExp by its source.\<close>

datatype rule = RuleString string | RuleRegExp string

text \<open>
  A JavaScript number as far as the ratio test needs it: the quotient of two lengths
  is a fraction, \<^verbatim>\<open>Infinity\<close> (a positive length over 0) or \<^verbatim>\<open>NaN\<close> (0 over 0).
  Finite values are exact fractions: the rounding of the quotient to a double
  is not part of the model.
\<close>

datatype jsnum = JNaN | JNegInf | JFin rat | JPosInf

fun js_gt :: "jsnum \<Rightarrow> jsnum \<Rightarrow> bool" where
  "js_gt JNaN _ = False"
| "js_gt _ JNaN = False"
| "js_gt JNegInf _ = False"
| "js_gt _ JPosInf = False"
| "js_gt (JFin a) (JFin b) = (b < a)"
| "js_gt (JFin a) JNegInf = True"
| "js_gt JPosInf _ = True"

fun js_le :: "jsnum \<Rightarrow> jsnum \<Rightarrow> bool" where
  "js_le JNaN _ = False"
| "js_le _ JNaN = False"
| "js_le JNegInf _ = True"
| "js_le _ JPosInf = True"
| "js_le (JFin a) (JFin b) = (a \<le> b)"
| "js_le (JFin a) JNegInf = False"
| "js_le JPosInf _ = False"

text \<open>\<^verbatim>\<open>a.length / b.length\<close> on two lengths.\<close>

definition js_div_len :: "nat \<Rightarrow> nat \<Rightarrow> jsnum" where
  "js_div_len c n =
     (if n = 0 then (if c = 0 then JNaN else JPosInf)
      else JFin (Fract (int c) (int n)))"

subsection \<open>The options object\<close>

text \<open>The constructor's argument: every property may be absent.\<close>

record user_options =
  u_test :: "rule list option"
  u_include :: "rule list option"
  u_exclude :: "rule list option"
  u_algorithm :: "algorithm option"
  u_compressionOptions :: "copts option"
  u_filename :: "filename option"
  u_threshold :: "nat option"
  u_minRatio :: "jsnum option"
  u_deleteOriginalAssets :: "deleteOriginalAssets option"

text \<open>
  \<^verbatim>\<open>this.options\<close> (InternalPluginOptions). The threshold is a number of bytes, compared
  with a buffer's length; \<^verbatim>\<open>minRatio\<close> is any number.
\<close>

record options =
  test :: "rule list option"
  include_rules :: "rule list option"
  exclude :: "rule list option"
  algorithm :: algorithm
  compressionOptions :: copts
  filename :: filename
  threshold :: nat
  minRatio :: jsnum
  deleteOriginalAssets :: deleteOriginalAssets

text \<open>The plugin instance: \<^verbatim>\<open>this.options\<close> and the resolved \<^verbatim>\<open>this.algorithm\<close>.\<close>

record plugin =
  opts :: options
  run_algorithm :: algfn

subsection \<open>The modules the constructor requires\<close>

text \<open>
  \<^verbatim>\<open>node:zlib\<close> is not part of the repository and is a parameter: \<open>zlib_member\<close> is the
  property lookup \<^verbatim>\<open>zlib[name]\<close> (\<open>None\<close> when the value is undefined or falsy, else
  the member as something to call), and the three constants are the entries of
  \<^verbatim>\<open>zlib.constants\<close> that the constructor reads.
\<close>

record zlib =
  zlib_member :: "string \<Rightarrow> algfn option"
  Z_BEST_COMPRESSION :: int
  BROTLI_PARAM_QUALITY :: string
  BROTLI_MAX_QUALITY :: int

text \<open>
  \<^verbatim>\<open>validate(schema, options)\<close> of schema-utils, with the schema file of the repository
  (not among the sources), is a parameter: it throws or it does not.
\<close>

type_synonym validator = "user_options \<Rightarrow> error option"

section \<open>The constructor\<close>

text \<open>The object literal indexed by the algorithm's name, then \<^verbatim>\<open>|| {}\<close>.\<close>

definition defaultCompressionOptions :: "zlib \<Rightarrow> string \<Rightarrow> copts" where
  "defaultCompressionOptions z name =
     (if name = ''gzip'' then [(''level'', ONum (Z_BEST_COMPRESSION z))]
      else if name = ''deflate'' then [(''level'', ONum (Z_BEST_COMPRESSION z))]
      else if name = ''deflateRaw'' then [(''level'', ONum (Z_BEST_COMPRESSION z))]
      else if name = ''brotliCompress'' then
        [(''params'', OObj [(BROTLI_PARAM_QUALITY z, ONum (BROTLI_MAX_QUALITY z))])]
      else [])"

text \<open>
  \<^verbatim>\<open>{ ...a, ...b }\<close>: the properties of \<open>a\<close>, then each property of \<open>b\<close> in turn
  assigned to the result: an existing key keeps its place and takes the new value, a
  new key goes to the end.
\<close>

definition spread :: "copts \<Rightarrow> copts \<Rightarrow> copts" where
  "spread a b = fold (\<lambda>(k, v) acc. AList.update k v acc) b a"

text \<open>The default of \<^verbatim>\<open>filename\<close> looks at the caller's \<^verbatim>\<open>algorithm\<close>, before its default.\<close>

definition default_filename :: "algorithm option \<Rightarrow> filename" where
  "default_filename a =
     (if a = Some (AlgString ''brotliCompress'') then FilenameString ''[path][base].br''
      else FilenameString ''[path][base].gz'')"

definition not_found_error :: "string \<Rightarrow> error" where
  "not_found_error name =
     Error (''Algorithm \"'' @ name @ ''\" is not found in \"zlib\"'')"

definition destructure :: "user_options \<Rightarrow> options" where
  "destructure u =
     \<lparr> test = u_test u,
       include_rules = u_include u,
       exclude = u_exclude u,
       algorithm = (case u_algorithm u of None \<Rightarrow> AlgString ''gzip'' | Some a \<Rightarrow> a),
       compressionOptions = (case u_compressionOptions u of None \<Rightarrow> [] | Some c \<Rightarrow> c),
       filename = (case u_filename u of None \<Rightarrow> default_filename (u_algorithm u) | Some f \<Rightarrow> f),
       threshold = (case u_threshold u of None \<Rightarrow> 0 | Some t \<Rightarrow> t),
       minRatio = (case u_minRatio u of None \<Rightarrow> JFin (Fract 4 5) | Some r \<Rightarrow> r),
       deleteOriginalAssets =
         (case u_deleteOriginalAssets u of None \<Rightarrow> DelBool False | Some d \<Rightarrow> d) \<rparr>"

text \<open>\<^verbatim>\<open>new CompressionPlugin(options)\<close>: \<open>Inl\<close> is the error thrown.\<close>

definition CompressionPlugin :: "validator \<Rightarrow> zlib \<Rightarrow> user_options \<Rightarrow> error + plugin" where
  "CompressionPlugin validate z u =
     (case validate u of
        Some e \<Rightarrow> Inl e
      | None \<Rightarrow>
          (let os = destructure u in
           case algorithm os of
             AlgFunction txt f \<Rightarrow> Inr \<lparr> opts = os, run_algorithm = f \<rparr>
           | AlgString name \<Rightarrow>
               (case zlib_member z name of
                  None \<Rightarrow> Inl (not_found_error name)
                | Some f \<Rightarrow>
                    Inr \<lparr> opts = os \<lparr> compressionOptions :=
                                 spread (defaultCompressionOptions z name) (compressionOptions os) \<rparr>,
                          run_algorithm = f \<rparr>)))"

section \<open>The host: assets, cache, path helpers\<close>

text \<open>
  A webpack \<^verbatim>\<open>Source\<close>: an object of webpack-sources (it has \<^verbatim>\<open>buffer()\<close>;
  \<^verbatim>\<open>new RawSource(b)\<close> is one), or an object of a plugin that does not use
  webpack-sources, whose \<^verbatim>\<open>source()\<close> gives a Buffer or a string.
\<close>

datatype source = RawSource buffer | LegacyBuffer buffer | LegacyString string

text \<open>
  \<^verbatim>\<open>AssetInfo\<close>, the three properties the plugin touches. A relation value is a name or
  \<^verbatim>\<open>null\<close> (\<open>None\<close>); \<^verbatim>\<open>related\<close> itself may be undefined.
\<close>

record info =
  info_compressed :: bool
  info_immutable :: bool
  info_related :: "(string \<rightharpoonup> string option) option"

record asset =
  a_source :: source
  a_info :: info

text \<open>The cached value: \<^verbatim>\<open>{ compressed }\<close> or \<^verbatim>\<open>{ compressed, source }\<close>; \<^verbatim>\<open>{}\<close> when nothing is cached.\<close>

record cached_output =
  out_compressed :: "buffer option"
  out_source :: "source option"

text \<open>
  The identity of a cache item: the serialized \<^verbatim>\<open>{ name, algorithm, compressionOptions }\<close>
  and the asset's source as content tag (\<^verbatim>\<open>getLazyHashedEtag(source)\<close>). A function is
  serialized to its text.
\<close>

datatype algkey = KName string | KFunction string

type_synonym cachekey = "string \<times> algkey \<times> copts \<times> source"

text \<open>
  Modelled from the spec: the asset store and the cache store are the host's (webpack's
  \<^verbatim>\<open>Compilation\<close>), outside the sources. The compilation is the state the pass works on:
  the named assets with their metadata, the cache items, and the build errors.
\<close>

record compilation =
  assets :: "string \<rightharpoonup> asset"
  cache :: "cachekey \<rightharpoonup> cached_output"
  errors :: "error list"

text \<open>
  The functions of webpack and node that \<^verbatim>\<open>compress\<close> calls and that compute a value
  only are parameters: \<^verbatim>\<open>ModuleFilenameHelpers.matchObject\<close>, \<^verbatim>\<open>compilation.getPath\<close>
  (on the template and the asset's name), \<^verbatim>\<open>path.extname\<close>, and the hex MD5 digest.
\<close>

record webpack =
  matchObject :: "options \<Rightarrow> string \<Rightarrow> bool"
  getPath :: "filename \<Rightarrow> string \<Rightarrow> string"
  extname :: "string \<Rightarrow> string"
  md5_hex :: "string \<Rightarrow> string"

text \<open>
  Modelled from the spec: \<^verbatim>\<open>update(name, content, metadataPatch)\<close>, restricted to the
  patch \<^verbatim>\<open>{ related: {...} }\<close> that the plugin passes: the content is replaced and the
  patch's relations are merged into the asset's. The host throws for a name it does not hold.
\<close>

definition updateAsset ::
  "string \<Rightarrow> source \<Rightarrow> (string \<times> string option) list \<Rightarrow> compilation \<Rightarrow> error + compilation" where
  "updateAsset name src patch st =
     (case assets st name of
        None \<Rightarrow> Inl (Error (''Called Compilation.updateAsset for not existing filename '' @ name))
      | Some a \<Rightarrow>
          (let old = (case info_related (a_info a) of None \<Rightarrow> Map.empty | Some r \<Rightarrow> r);
               new = fold (\<lambda>(k, v) r. r(k \<mapsto> v)) patch old
           in Inr (st \<lparr> assets := (assets st)(name \<mapsto>
                    \<lparr> a_source = src,
                      a_info = (a_info a) \<lparr> info_related := Some new \<rparr> \<rparr>) \<rparr>)))"

text \<open>Modelled from the spec: \<^verbatim>\<open>delete(name)\<close>.\<close>

definition deleteAsset :: "string \<Rightarrow> compilation \<Rightarrow> compilation" where
  "deleteAsset name st = st \<lparr> assets := (assets st)(name := None) \<rparr>"

text \<open>Modelled from the spec: \<^verbatim>\<open>emit(name, content, metadata)\<close>.\<close>

definition emitAsset :: "string \<Rightarrow> source \<Rightarrow> info \<Rightarrow> compilation \<Rightarrow> compilation" where
  "emitAsset file src i st =
     st \<lparr> assets := (assets st)(file \<mapsto> \<lparr> a_source = src, a_info = i \<rparr>) \<rparr>"

text \<open>Modelled from the spec: the cache handle's \<^verbatim>\<open>get() -> value|absent\<close> and \<^verbatim>\<open>store(value)\<close>.\<close>

definition getPromise :: "cachekey \<Rightarrow> compilation \<Rightarrow> cached_output option" where
  "getPromise k st = cache st k"

definition storePromise :: "cachekey \<Rightarrow> cached_output \<Rightarrow> compilation \<Rightarrow> compilation" where
  "storePromise k v st = st \<lparr> cache := (cache st)(k \<mapsto> v) \<rparr>"

section \<open>The relation name\<close>

text \<open>\<^verbatim>\<open>s.indexOf(c)\<close>: the first position of \<open>c\<close>, or -1.\<close>

fun indexOf :: "string \<Rightarrow> char \<Rightarrow> int" where
  "indexOf [] c = - 1"
| "indexOf (x # xs) c =
     (if x = c then 0 else (let i = indexOf xs c in if i < 0 then - 1 else i + 1))"

definition filenameForRelatedName :: "string \<Rightarrow> string" where
  "filenameForRelatedName s =
     (let index = indexOf s (CHR ''?'') in if 0 \<le> index then take (nat index) s else s)"

definition relatedName :: "webpack \<Rightarrow> options \<Rightarrow> string" where
  "relatedName w os =
     (case algorithm os of
        AlgFunction atxt af \<Rightarrow>
          (case filename os of
             FilenameFunction ftxt ff \<Rightarrow> ''compression-function-'' @ md5_hex w ftxt
           | FilenameString s \<Rightarrow> drop 1 (extname w (filenameForRelatedName s)) @ ''ed'')
      | AlgString a \<Rightarrow> (if a = ''gzip'' then ''gzipped'' else a @ ''ed''))"

section \<open>The compress pass\<close>

subsection \<open>Selecting the assets\<close>

text \<open>The object an asset's callback returns when the asset is kept (AssetForCompression).\<close>

record candidate =
  c_name :: string
  c_source :: source
  c_info :: info
  c_buffer :: "buffer option"
  c_output :: cached_output
  c_cacheItem :: cachekey
  c_relatedName :: string

definition serialize_algorithm :: "algorithm \<Rightarrow> algkey" where
  "serialize_algorithm a = (case a of AlgString s \<Rightarrow> KName s | AlgFunction txt f \<Rightarrow> KFunction txt)"

definition getItemCache :: "options \<Rightarrow> string \<Rightarrow> source \<Rightarrow> cachekey" where
  "getItemCache os name src = (name, serialize_algorithm (algorithm os), compressionOptions os, src)"

text \<open>\<^verbatim>\<open>info.related && info.related[relatedName]\<close>: a non-empty name under that key.\<close>

definition related_truthy :: "info \<Rightarrow> string \<Rightarrow> bool" where
  "related_truthy i rn =
     (case info_related i of
        None \<Rightarrow> False
      | Some r \<Rightarrow> (case r rn of Some (Some target) \<Rightarrow> target \<noteq> [] | _ \<Rightarrow> False))"

text \<open>\<^verbatim>\<open>source.buffer()\<close>, or \<^verbatim>\<open>source.source()\<close> made a Buffer.\<close>

definition source_buffer :: "source \<Rightarrow> buffer" where
  "source_buffer src = (case src of RawSource b \<Rightarrow> b | LegacyBuffer b \<Rightarrow> b | LegacyString s \<Rightarrow> s)"

definition empty_output :: cached_output where
  "empty_output = \<lparr> out_compressed = None, out_source = None \<rparr>"

text \<open>
  The callback of \<^verbatim>\<open>Object.keys(assets).map\<close>: \<open>Inr None\<close> is \<^verbatim>\<open>false\<close>, \<open>Inl\<close> the
  rejection when \<^verbatim>\<open>getAsset\<close> gives undefined and the destructuring throws.
\<close>

definition prepare :: "webpack \<Rightarrow> plugin \<Rightarrow> compilation \<Rightarrow> string \<Rightarrow> error + candidate option" where
  "prepare w P st name =
     (case assets st name of
        None \<Rightarrow> Inl (Error ''TypeError: Cannot destructure property of undefined'')
      | Some a \<Rightarrow>
          (if info_compressed (a_info a) then Inr None
           else if \<not> matchObject w (opts P) name then Inr None
           else
             (let rn = relatedName w (opts P) in
              if related_truthy (a_info a) rn then Inr None
              else
                (let cacheItem = getItemCache (opts P) name (a_source a);
                     out = (case getPromise cacheItem st of None \<Rightarrow> empty_output | Some v \<Rightarrow> v);
                     c = \<lparr> c_name = name, c_source = a_source a, c_info = a_info a,
                           c_buffer = None, c_output = out, c_cacheItem = cacheItem,
                           c_relatedName = rn \<rparr>
                 in if out_source out = None then
                      (let buffer = source_buffer (a_source a) in
                       if length buffer < threshold (opts P) then Inr None
                       else Inr (Some (c \<lparr> c_buffer := Some buffer \<rparr>)))
                    else Inr (Some c)))))"

text \<open>\<^verbatim>\<open>(await Promise.all(...)).filter(Boolean)\<close>: the first rejection, or the kept objects.\<close>

fun collect :: "(error + 'a option) list \<Rightarrow> error + 'a list" where
  "collect [] = Inr []"
| "collect (Inl e # rs) = Inl e"
| "collect (Inr None # rs) = collect rs"
| "collect (Inr (Some c) # rs) = (case collect rs of Inl e \<Rightarrow> Inl e | Inr cs \<Rightarrow> Inr (c # cs))"

subsection \<open>One task\<close>

definition runCompressionAlgorithm :: "plugin \<Rightarrow> buffer \<Rightarrow> error + buffer" where
  "runCompressionAlgorithm P input =
     (case run_algorithm P input (compressionOptions (opts P)) of
        Inl e \<Rightarrow> Inl e
      | Inr (ResBuffer b) \<Rightarrow> Inr b
      | Inr (ResString s) \<Rightarrow> Inr s)"

fun starts_with :: "string \<Rightarrow> string \<Rightarrow> bool" where
  "starts_with s [] = True"
| "starts_with [] (p # ps) = False"
| "starts_with (x # xs) (p # ps) = (x = p \<and> starts_with xs ps)"

fun contains_str :: "string \<Rightarrow> string \<Rightarrow> bool" where
  "contains_str [] p = (p = [])"
| "contains_str (x # xs) p = (starts_with (x # xs) p \<or> contains_str xs p)"

text \<open>The RegExp of the immutability test, on a template string.\<close>

definition has_name_placeholder :: "string \<Rightarrow> bool" where
  "has_name_placeholder s =
     (contains_str s ''[name]'' \<or> contains_str s ''[base]'' \<or> contains_str s ''[file]'')"

definition newInfo :: "options \<Rightarrow> info \<Rightarrow> info" where
  "newInfo os i =
     \<lparr> info_compressed = True,
       info_immutable =
         (info_immutable i \<and>
          (case filename os of FilenameString s \<Rightarrow> has_name_placeholder s
                             | FilenameFunction txt f \<Rightarrow> False)),
       info_related = None \<rparr>"

text \<open>
  What happens to the original asset (the \<^verbatim>\<open>if (this.options.deleteOriginalAssets)\<close>
  statement): \<open>Inl\<close> when \<^verbatim>\<open>updateAsset\<close> throws.
\<close>

definition dispose_original ::
  "options \<Rightarrow> candidate \<Rightarrow> string \<Rightarrow> compilation \<Rightarrow> error + compilation" where
  "dispose_original os c newFilename st =
     (case deleteOriginalAssets os of
        DelBool False \<Rightarrow>
          updateAsset (c_name c) (c_source c) [(c_relatedName c, Some newFilename)] st
      | DelKeepSourceMap \<Rightarrow>
          (case updateAsset (c_name c) (c_source c) [(''sourceMap'', None)] st of
             Inl e \<Rightarrow> Inl e
           | Inr st1 \<Rightarrow> Inr (deleteAsset (c_name c) st1))
      | DelFunction p \<Rightarrow>
          (if p (c_name c) then Inr (deleteAsset (c_name c) st) else Inr st)
      | DelBool True \<Rightarrow> Inr (deleteAsset (c_name c) st))"

text \<open>
  The end of a task, from \<^verbatim>\<open>compilation.getPath\<close> on, with the output source to emit.
  The second component is the error the task's promise is rejected with, if any.
\<close>

definition emit_output ::
  "webpack \<Rightarrow> plugin \<Rightarrow> candidate \<Rightarrow> source \<Rightarrow> compilation \<Rightarrow> compilation \<times> error option" where
  "emit_output w P c src st =
     (let newFilename = getPath w (filename (opts P)) (c_name c);
          ni = newInfo (opts P) (c_info c)
      in case dispose_original (opts P) c newFilename st of
           Inl e \<Rightarrow> (st, Some e)
         | Inr st1 \<Rightarrow> (emitAsset newFilename src ni st1, None))"

text \<open>
  One scheduled task. When \<^verbatim>\<open>output.source\<close> is absent the selection has read the
  buffer; an object with neither (which the selection never builds) makes the source
  read \<^verbatim>\<open>length\<close> of undefined, a TypeError.
\<close>

definition task ::
  "webpack \<Rightarrow> plugin \<Rightarrow> candidate \<Rightarrow> compilation \<Rightarrow> compilation \<times> error option" where
  "task w P c st =
     (case out_source (c_output c) of
        Some src \<Rightarrow> emit_output w P c src st
      | None \<Rightarrow>
          (case c_buffer c of
             None \<Rightarrow> (st, Some (Error ''TypeError: Cannot read properties of undefined''))
           | Some buffer \<Rightarrow>
               (case (case out_compressed (c_output c) of
                        Some z \<Rightarrow> Inr z
                      | None \<Rightarrow> runCompressionAlgorithm P buffer) of
                  Inl e \<Rightarrow> (st \<lparr> errors := errors st @ [e] \<rparr>, None)
                | Inr z \<Rightarrow>
                    (if js_gt (js_div_len (length z) (length buffer)) (minRatio (opts P)) then
                       (storePromise (c_cacheItem c)
                          \<lparr> out_compressed = Some z, out_source = None \<rparr> st, None)
                     else
                       (let out = (c_output c) \<lparr> out_compressed := Some z,
                                                 out_source := Some (RawSource z) \<rparr>
                        in emit_output w P c (RawSource z)
                             (storePromise (c_cacheItem c) out st))))))"

subsection \<open>The pass\<close>

text \<open>
  \<^verbatim>\<open>await Promise.all(scheduledTasks)\<close>: every task runs, whatever the others do; the
  pass is rejected with the first rejection. The tasks take their turns in the order
  of the list.
\<close>

fun run_tasks ::
  "webpack \<Rightarrow> plugin \<Rightarrow> candidate list \<Rightarrow> compilation \<Rightarrow> compilation \<times> error option" where
  "run_tasks w P [] st = (st, None)"
| "run_tasks w P (c # cs) st =
     (case task w P c st of
        (st1, r1) \<Rightarrow>
          (case run_tasks w P cs st1 of
             (st2, r2) \<Rightarrow> (st2, (case r1 of Some e \<Rightarrow> Some e | None \<Rightarrow> r2))))"

text \<open>\<^verbatim>\<open>compress(compiler, compilation, assets)\<close>, on the keys of \<^verbatim>\<open>assets\<close>.\<close>

definition compress ::
  "webpack \<Rightarrow> plugin \<Rightarrow> string list \<Rightarrow> compilation \<Rightarrow> compilation \<times> error option" where
  "compress w P names st =
     (case collect (map (prepare w P st) names) of
        Inl e \<Rightarrow> (st, Some e)
      | Inr cs \<Rightarrow> run_tasks w P cs st)"

section \<open>Example values\<close>

text \<open>
  Stand-ins for the parameters, for the concrete instances below: a zlib with the four
  well-known members, whose compression keeps the first four bytes and fails on the
  empty input; a \<^verbatim>\<open>getPath\<close> that knows the template prefix \<^verbatim>\<open>[path][base]\<close>; an
  \<^verbatim>\<open>extname\<close> that cuts at the last dot.
\<close>

definition example_algorithm :: algfn where
  "example_algorithm b os =
     (if b = [] then Inl (Error ''unexpected end of input'') else Inr (ResBuffer (take 4 b)))"

definition example_zlib :: zlib where
  "example_zlib =
     \<lparr> zlib_member =
         (\<lambda>n. if n = ''gzip'' \<or> n = ''deflate'' \<or> n = ''deflateRaw'' \<or> n = ''brotliCompress''
              then Some example_algorithm else None),
       Z_BEST_COMPRESSION = 9,
       BROTLI_PARAM_QUALITY = ''1'',
       BROTLI_MAX_QUALITY = 11 \<rparr>"

definition no_validation :: validator where
  "no_validation u = None"

definition no_options :: user_options where
  "no_options =
     \<lparr> u_test = None, u_include = None, u_exclude = None, u_algorithm = None,
       u_compressionOptions = None, u_filename = None, u_threshold = None,
       u_minRatio = None, u_deleteOriginalAssets = None \<rparr>"

definition example_getPath :: "filename \<Rightarrow> string \<Rightarrow> string" where
  "example_getPath f n =
     (case f of
        FilenameString s \<Rightarrow> (if starts_with s ''[path][base]'' then n @ drop 12 s else s)
      | FilenameFunction txt g \<Rightarrow> g n)"

definition example_extname :: "string \<Rightarrow> string" where
  "example_extname s =
     (if CHR ''.'' \<in> set s then CHR ''.'' # rev (takeWhile (\<lambda>c. c \<noteq> CHR ''.'') (rev s)) else [])"

definition example_webpack :: webpack where
  "example_webpack =
     \<lparr> matchObject = (\<lambda>os n. True),
       getPath = example_getPath,
       extname = example_extname,
       md5_hex = (\<lambda>s. ''0cc175b9c0f1b6a831c399e269772661'') \<rparr>"

text \<open>The plugin that \<^verbatim>\<open>new CompressionPlugin()\<close> builds with the example zlib.\<close>

definition example_plugin :: plugin where
  "example_plugin =
     \<lparr> opts =
         \<lparr> test = None, include_rules = None, exclude = None,
           algorithm = AlgString ''gzip'',
           compressionOptions = [(''level'', ONum 9)],
           filename = FilenameString ''[path][base].gz'',
           threshold = 0,
           minRatio = JFin (Fract 4 5),
           deleteOriginalAssets = DelBool False \<rparr>,
       run_algorithm = example_algorithm \<rparr>"

definition plain_info :: info where
  "plain_info = \<lparr> info_compressed = False, info_immutable = False, info_related = None \<rparr>"

text \<open>A compilation that holds one asset, \<^verbatim>\<open>app.js\<close>, with the given bytes, and an empty cache.\<close>

definition one_asset :: "buffer \<Rightarrow> compilation" where
  "one_asset b =
     \<lparr> assets = [''app.js'' \<mapsto> \<lparr> a_source = RawSource b, a_info = plain_info \<rparr>],
       cache = Map.empty,
       errors = [] \<rparr>"

text \<open>The object the selection builds for \<^verbatim>\<open>app.js\<close> in that compilation.\<close>

definition example_candidate :: "buffer \<Rightarrow> candidate" where
  "example_candidate b =
     \<lparr> c_name = ''app.js'', c_source = RawSource b, c_info = plain_info,
       c_buffer = Some b, c_output = empty_output,
       c_cacheItem = (''app.js'', KName ''gzip'', [(''level'', ONum 9)], RawSource b),
       c_relatedName = ''gzipped'' \<rparr>"

text \<open>The same compilation after an earlier build has cached the realized output.\<close>

definition cached_asset :: "buffer \<Rightarrow> buffer \<Rightarrow> compilation" where
  "cached_asset b z =
     (one_asset b) \<lparr> cache :=
        [(''app.js'', KName ''gzip'', [(''level'', ONum 9)], RawSource b) \<mapsto>
           \<lparr> out_compressed = Some z, out_source = Some (RawSource z) \<rparr>] \<rparr>"

text \<open>A compilation with a second, empty asset, on which the example algorithm fails.\<close>

definition two_assets :: compilation where
  "two_assets =
     \<lparr> assets = [''empty.js'' \<mapsto> \<lparr> a_source = RawSource [], a_info = plain_info \<rparr>,
                 ''app.js'' \<mapsto> \<lparr> a_source = RawSource ''aaaaaaaaaa'', a_info = plain_info \<rparr>],
       cache = Map.empty,
       errors = [] \<rparr>"

definition empty_candidate :: candidate where
  "empty_candidate =
     \<lparr> c_name = ''empty.js'', c_source = RawSource [], c_info = plain_info,
       c_buffer = Some [], c_output = empty_output,
       c_cacheItem = (''empty.js'', KName ''gzip'', [(''level'', ONum 9)], RawSource []),
       c_relatedName = ''gzipped'' \<rparr>"

text \<open>
  A zlib that also has the member \<^verbatim>\<open>constants\<close>, which is an object and not a function:
  calling it is a TypeError.
\<close>

definition not_a_function :: algfn where
  "not_a_function b os = Inl (Error ''TypeError: this.algorithm is not a function'')"

definition zlib_with_constants :: zlib where
  "zlib_with_constants =
     example_zlib \<lparr> zlib_member :=
       (\<lambda>n. if n = ''constants'' then Some not_a_function else zlib_member example_zlib n) \<rparr>"





section \<open>What a task does, read off its candidate\<close>







section \<open>The constructor: algorithm lookup and default options\<close>

text \<open>
  Claim C5 as stated fails: \<^verbatim>\<open>constants\<close> is not a compression function, zlib has it,
  and the constructor returns a plugin; the algorithm fails later, at each asset.
\<close>

theorem constants_is_constructed:
  "CompressionPlugin no_validation zlib_with_constants
     (no_options \<lparr> u_algorithm := Some (AlgString ''constants'') \<rparr>)
   = Inr \<lparr> opts =
             \<lparr> test = None, include_rules = None, exclude = None,
               algorithm = AlgString ''constants'',
               compressionOptions = [],
               filename = FilenameString ''[path][base].gz'',
               threshold = 0,
               minRatio = JFin (Fract 4 5),
               deleteOriginalAssets = DelBool False \<rparr>,
           run_algorithm = not_a_function \<rparr>
   \<and> runCompressionAlgorithm
         \<lparr> opts =
             \<lparr> test = None, include_rules = None, exclude = None,
               algorithm = AlgString ''constants'',
               compressionOptions = [],
               filename = FilenameString ''[path][base].gz'',
               threshold = 0,
               minRatio = JFin (Fract 4 5),
               deleteOriginalAssets = DelBool False \<rparr>,
           run_algorithm = not_a_function \<rparr> ''aaaaaaaaaa''
       = Inl (Error ''TypeError: this.algorithm is not a function'')"
  by (simp add: CompressionPlugin_def no_validation_def zlib_with_constants_def example_zlib_def
      destructure_def no_options_def default_filename_def defaultCompressionOptions_def
      spread_def runCompressionAlgorithm_def not_a_function_def Let_def)

text \<open>
  Claim C5, amended. With a named algorithm under which zlib has nothing (or a falsy
  value), the constructor throws: the result is an error, and it is the "not found"
  error whenever the validation of the options passes. No compilation is involved: a
  plugin that was not built has no pass to run. With a name under which zlib has a
  value, compression function or not, or with a function, the constructor returns a
  plugin whenever the validation passes.
\<close>

theorem construction_unknown_algorithm:
  "(u_algorithm u = Some (AlgString name) \<and> zlib_member z name = None \<longrightarrow>
      (\<exists>e. CompressionPlugin validate z u = Inl e) \<and>
      (validate u = None \<longrightarrow> CompressionPlugin validate z u = Inl (not_found_error name)))
   \<and> (u_algorithm u = Some (AlgString name) \<and> zlib_member z name \<noteq> None \<and> validate u = None \<longrightarrow>
      (\<exists>P. CompressionPlugin validate z u = Inr P))
   \<and> (u_algorithm u = Some (AlgFunction atxt f) \<and> validate u = None \<longrightarrow>
      (\<exists>P. CompressionPlugin validate z u = Inr P))"
  by (auto simp: CompressionPlugin_def destructure_def Let_def split: option.splits)

theorem construction_unknown_algorithm_witness:
  "CompressionPlugin no_validation example_zlib (no_options \<lparr> u_algorithm := Some (AlgString ''nope'') \<rparr>)
     = Inl (not_found_error ''nope'')
   \<and> (\<exists>P. CompressionPlugin no_validation example_zlib
             (no_options \<lparr> u_algorithm := Some (AlgString ''deflate'') \<rparr>) = Inr P)
   \<and> (\<exists>P. CompressionPlugin no_validation example_zlib
             (no_options \<lparr> u_algorithm := Some (AlgFunction ''f'' example_algorithm) \<rparr>) = Inr P)"
proof -
  note a = construction_unknown_algorithm [where u = "no_options \<lparr> u_algorithm := Some (AlgString ''nope'') \<rparr>"
          and name = "''nope''" and z = example_zlib and validate = no_validation]
  note b = construction_unknown_algorithm [where u = "no_options \<lparr> u_algorithm := Some (AlgString ''deflate'') \<rparr>"
          and name = "''deflate''" and z = example_zlib and validate = no_validation]
  note c = construction_unknown_algorithm [where u = "no_options \<lparr> u_algorithm := Some (AlgFunction ''f'' example_algorithm) \<rparr>"
          and atxt = "''f''" and f = example_algorithm and z = example_zlib and validate = no_validation]
  show ?thesis using a b c by (simp add: example_zlib_def no_options_def no_validation_def)
qed

text \<open>
  The spread of two option objects, read by key: the caller's value where the caller has
  the key, the default's otherwise.
\<close>

lemma spread_map_of:
  "distinct (map fst b) \<Longrightarrow>
   map_of (spread a b) k = (case map_of b k of Some v \<Rightarrow> Some v | None \<Rightarrow> map_of a k)"
  unfolding spread_def
proof (induction b arbitrary: a)
  case Nil
  then show ?case by simp
next
  case (Cons p b)
  obtain k' v' where p: "p = (k', v')" by (cases p)
  from Cons.prems have d: "distinct (map fst b)" and nin: "k' \<notin> fst ` set b" by (auto simp: p)
  have "map_of b k' = None" using nin by (simp add: map_of_eq_None_iff)
  then show ?case using Cons.IH [OF d, of "AList.update k' v' a"]
    by (auto simp: p update_conv' split: option.splits)
qed

text \<open>
  Claim C8. For a named algorithm the plugin's \<^verbatim>\<open>compressionOptions\<close> are the spread of
  the defaults for that name and the caller's options, so every key reads the caller's
  value first. The defaults are \<^verbatim>\<open>level: Z_BEST_COMPRESSION\<close> for gzip, deflate and
  deflateRaw, \<^verbatim>\<open>params: {[BROTLI_PARAM_QUALITY]: BROTLI_MAX_QUALITY}\<close> for brotliCompress,
  and the empty object for every other name.
\<close>

theorem construction_merges_defaults:
  assumes "CompressionPlugin validate z u = Inr P"
    and "algorithm (destructure u) = AlgString name"
    and "distinct (map fst (compressionOptions (destructure u)))"
  shows "compressionOptions (opts P) =
           spread (defaultCompressionOptions z name) (compressionOptions (destructure u))
       \<and> (\<forall>k. map_of (compressionOptions (opts P)) k =
             (case map_of (compressionOptions (destructure u)) k of
                Some v \<Rightarrow> Some v
              | None \<Rightarrow> map_of (defaultCompressionOptions z name) k))
       \<and> (name = ''gzip'' \<or> name = ''deflate'' \<or> name = ''deflateRaw'' \<longrightarrow>
             defaultCompressionOptions z name = [(''level'', ONum (Z_BEST_COMPRESSION z))])
       \<and> (name = ''brotliCompress'' \<longrightarrow>
             defaultCompressionOptions z name =
               [(''params'', OObj [(BROTLI_PARAM_QUALITY z, ONum (BROTLI_MAX_QUALITY z))])])
       \<and> (name \<noteq> ''gzip'' \<and> name \<noteq> ''deflate'' \<and> name \<noteq> ''deflateRaw'' \<and> name \<noteq> ''brotliCompress'' \<longrightarrow>
             defaultCompressionOptions z name = [])"
proof -
  have eq: "compressionOptions (opts P) =
           spread (defaultCompressionOptions z name) (compressionOptions (destructure u))"
    using assms(1,2)
    by (auto simp: CompressionPlugin_def Let_def split: option.splits algorithm.splits)
  have lk: "\<forall>k. map_of (compressionOptions (opts P)) k =
             (case map_of (compressionOptions (destructure u)) k of
                Some v \<Rightarrow> Some v
              | None \<Rightarrow> map_of (defaultCompressionOptions z name) k)"
    using assms(3) by (simp add: eq spread_map_of)
  have d1: "name = ''gzip'' \<or> name = ''deflate'' \<or> name = ''deflateRaw'' \<longrightarrow>
             defaultCompressionOptions z name = [(''level'', ONum (Z_BEST_COMPRESSION z))]"
    by (auto simp: defaultCompressionOptions_def)
  have d2: "name = ''brotliCompress'' \<longrightarrow>
             defaultCompressionOptions z name =
               [(''params'', OObj [(BROTLI_PARAM_QUALITY z, ONum (BROTLI_MAX_QUALITY z))])]"
    by (simp add: defaultCompressionOptions_def)
  have d3: "name \<noteq> ''gzip'' \<and> name \<noteq> ''deflate'' \<and> name \<noteq> ''deflateRaw'' \<and> name \<noteq> ''brotliCompress'' \<longrightarrow>
             defaultCompressionOptions z name = []"
    by (simp add: defaultCompressionOptions_def)
  from eq lk d1 d2 d3 show ?thesis by blast
qed

theorem construction_merges_defaults_witness:
  "\<exists>P. CompressionPlugin no_validation example_zlib
          (no_options \<lparr> u_compressionOptions := Some [(''level'', ONum 1), (''memLevel'', ONum 8)] \<rparr>) = Inr P
       \<and> compressionOptions (opts P) = [(''level'', ONum 1), (''memLevel'', ONum 8)]"
proof -
  let ?u = "no_options \<lparr> u_compressionOptions := Some [(''level'', ONum 1), (''memLevel'', ONum 8)] \<rparr>"
  obtain P where P: "CompressionPlugin no_validation example_zlib ?u = Inr P"
    by (simp add: CompressionPlugin_def no_validation_def example_zlib_def destructure_def
        no_options_def Let_def)
  have a: "algorithm (destructure ?u) = AlgString ''gzip''"
    by (simp add: destructure_def no_options_def)
  have d: "distinct (map fst (compressionOptions (destructure ?u)))"
    by (simp add: destructure_def no_options_def)
  from construction_merges_defaults [OF P a d]
  have "compressionOptions (opts P) = [(''level'', ONum 1), (''memLevel'', ONum 8)]"
    by (simp add: destructure_def no_options_def spread_def defaultCompressionOptions_def)
  with P show ?thesis by blast
qed

section \<open>The relation name\<close>


text \<open>
  Claim C6. The relation name by cases: function algorithm and function filename give
  \<^verbatim>\<open>compression-function-\<close> followed by the MD5 digest of the serialized filename;
  function algorithm and string filename give the extension of the filename (query
  cut off) without its dot, followed by \<^verbatim>\<open>ed\<close>; the name gzip gives \<^verbatim>\<open>gzipped\<close>; any other
  name gives the name followed by \<^verbatim>\<open>ed\<close>. The name attached to a selected asset is
  this function of the configuration, whatever the asset and the compilation.
\<close>

theorem relatedName_cases:
  "(algorithm os = AlgFunction atxt af \<and> filename os = FilenameFunction ftxt ff \<longrightarrow>
      relatedName w os = ''compression-function-'' @ md5_hex w ftxt)
   \<and> (algorithm os = AlgFunction atxt af \<and> filename os = FilenameString s \<longrightarrow>
      relatedName w os = drop 1 (extname w (filenameForRelatedName s)) @ ''ed'')
   \<and> (algorithm os = AlgString ''gzip'' \<longrightarrow> relatedName w os = ''gzipped'')
   \<and> (algorithm os = AlgString a \<and> a \<noteq> ''gzip'' \<longrightarrow> relatedName w os = a @ ''ed'')
   \<and> (prepare w P st name = Inr (Some c) \<longrightarrow> c_relatedName c = relatedName w (opts P))"
  by (auto simp: relatedName_def prepare_def Let_def split: option.splits if_splits)

theorem relatedName_cases_witness:
  "relatedName example_webpack (opts example_plugin) = ''gzipped''
   \<and> relatedName example_webpack (opts example_plugin \<lparr> algorithm := AlgString ''brotliCompress'' \<rparr>)
       = ''brotliCompressed''
   \<and> relatedName example_webpack
       (opts example_plugin \<lparr> algorithm := AlgFunction ''f'' example_algorithm \<rparr>) = ''gzed''
   \<and> relatedName example_webpack
       (opts example_plugin \<lparr> algorithm := AlgFunction ''f'' example_algorithm,
                              filename := FilenameFunction ''g'' (\<lambda>n. n @ ''.z'') \<rparr>)
       = ''compression-function-0cc175b9c0f1b6a831c399e269772661''"
proof -
  let ?f = "AlgFunction ''f'' example_algorithm"
  note a = relatedName_cases [where os = "opts example_plugin" and w = example_webpack]
  note b = relatedName_cases [where os = "opts example_plugin \<lparr> algorithm := AlgString ''brotliCompress'' \<rparr>"
      and a = "''brotliCompress''" and w = example_webpack]
  note c = relatedName_cases [where os = "opts example_plugin \<lparr> algorithm := ?f \<rparr>"
      and atxt = "''f''" and af = example_algorithm and s = "''[path][base].gz''" and w = example_webpack]
  note d = relatedName_cases [where os = "opts example_plugin \<lparr> algorithm := ?f,
                              filename := FilenameFunction ''g'' (\<lambda>n. n @ ''.z'') \<rparr>"
      and atxt = "''f''" and af = example_algorithm and ftxt = "''g''" and ff = "\<lambda>n. n @ ''.z''"
      and w = example_webpack]
  have e: "drop 1 (extname example_webpack (filenameForRelatedName ''[path][base].gz'')) @ ''ed'' = ''gzed''"
    by (simp add: example_webpack_def example_extname_def filenameForRelatedName_def Let_def)
  have m: "md5_hex example_webpack ''g'' = ''0cc175b9c0f1b6a831c399e269772661''"
    by (simp add: example_webpack_def)
  have p: "algorithm (opts example_plugin) = AlgString ''gzip''"
    "filename (opts example_plugin) = FilenameString ''[path][base].gz''"
    by (simp_all add: example_plugin_def)
  from a p have 1: "relatedName example_webpack (opts example_plugin) = ''gzipped''" by blast
  from b have 2: "relatedName example_webpack (opts example_plugin \<lparr> algorithm := AlgString ''brotliCompress'' \<rparr>)
       = ''brotliCompressed''" by simp
  from c p e have 3: "relatedName example_webpack
       (opts example_plugin \<lparr> algorithm := AlgFunction ''f'' example_algorithm \<rparr>) = ''gzed''" by simp
  from d m have 4: "relatedName example_webpack
       (opts example_plugin \<lparr> algorithm := AlgFunction ''f'' example_algorithm,
                              filename := FilenameFunction ''g'' (\<lambda>n. n @ ''.z'') \<rparr>)
       = ''compression-function-0cc175b9c0f1b6a831c399e269772661''" by simp
  from 1 2 3 4 show ?thesis by blast
qed

lemma indexOf_append:
  "q \<notin> set p \<Longrightarrow> indexOf (p @ q # r) q = int (length p)"
  by (induction p) (auto simp: Let_def)

lemma indexOf_absent: "q \<notin> set p \<Longrightarrow> indexOf p q = - 1"
  by (induction p) (auto simp: Let_def)

text \<open>
  Claim C9. With a function algorithm and a string filename that has a question mark,
  the relation name is taken from the extension of the part before the first question
  mark, and equals the relation name of that part alone.
\<close>

theorem relatedName_strips_query:
  assumes "algorithm os = AlgFunction atxt af" and "CHR ''?'' \<notin> set p"
  shows "relatedName w (os \<lparr> filename := FilenameString (p @ CHR ''?'' # q) \<rparr>)
           = drop 1 (extname w p) @ ''ed''
       \<and> relatedName w (os \<lparr> filename := FilenameString (p @ CHR ''?'' # q) \<rparr>)
           = relatedName w (os \<lparr> filename := FilenameString p \<rparr>)"
  using assms
  by (simp add: relatedName_def filenameForRelatedName_def indexOf_append indexOf_absent Let_def)

theorem relatedName_strips_query_witness:
  "relatedName example_webpack
     (opts example_plugin \<lparr> algorithm := AlgFunction ''f'' example_algorithm,
                            filename := FilenameString ''[path][base].gz?v=1'' \<rparr>) = ''gzed''
   \<and> relatedName example_webpack
     (opts example_plugin \<lparr> algorithm := AlgFunction ''f'' example_algorithm,
                            filename := FilenameString ''[path][base].gz'' \<rparr>) = ''gzed''"
proof -
  let ?os = "opts example_plugin \<lparr> algorithm := AlgFunction ''f'' example_algorithm \<rparr>"
  have h: "algorithm ?os = AlgFunction ''f'' example_algorithm" by simp
  have q: "CHR ''?'' \<notin> set ''[path][base].gz''" by simp
  have e: "drop 1 (extname example_webpack ''[path][base].gz'') @ ''ed'' = ''gzed''"
    by (simp add: example_webpack_def example_extname_def)
  from relatedName_strips_query [OF h q, of example_webpack "''v=1''"] e
  show ?thesis by auto
qed

section \<open>The ratio policy\<close>

lemma js_le_not_gt: "js_le a b \<Longrightarrow> \<not> js_gt a b"
  by (cases a; cases b) auto

lemma dispose_original_present:
  "assets st (c_name c) \<noteq> None \<Longrightarrow> \<exists>st1. dispose_original os c nf st = Inr st1 \<and> cache st1 = cache st \<and> errors st1 = errors st"
  by (auto simp: dispose_original_def updateAsset_def deleteAsset_def Let_def
      split: deleteOriginalAssets.splits bool.splits option.splits)

lemma emit_output_present:
  assumes "assets st (c_name c) \<noteq> None"
  shows "\<exists>st'. emit_output w P c src st = (st', None) \<and> cache st' = cache st \<and> errors st' = errors st
      \<and> assets st' (getPath w (filename (opts P)) (c_name c))
          = Some \<lparr> a_source = src, a_info = newInfo (opts P) (c_info c) \<rparr>"
proof -
  from dispose_original_present [OF assms, of "opts P" "getPath w (filename (opts P)) (c_name c)"]
  obtain st1 where d: "dispose_original (opts P) c (getPath w (filename (opts P)) (c_name c)) st = Inr st1"
    and c: "cache st1 = cache st" "errors st1 = errors st" by blast
  show ?thesis
    by (simp add: emit_output_def Let_def d emitAsset_def c)
qed

lemma example_run_10: "runCompressionAlgorithm example_plugin ''aaaaaaaaaa'' = Inr ''aaaa''"
  by (simp add: runCompressionAlgorithm_def example_plugin_def example_algorithm_def)

lemma example_run_4: "runCompressionAlgorithm example_plugin ''aaaa'' = Inr ''aaaa''"
  by (simp add: runCompressionAlgorithm_def example_plugin_def example_algorithm_def)


text \<open>
  Claim C1. A task whose cache entry has no output source, and whose compression gives
  \<open>z\<close> (now, or cached by an earlier build) for the buffer read by the selection:
  when \<open>length z / length buffer\<close> is greater than \<^verbatim>\<open>minRatio\<close>, the task stores
  \<^verbatim>\<open>{ compressed: z }\<close> in the cache and does nothing else: the assets are those of before.
  When the quotient is at most \<^verbatim>\<open>minRatio\<close> (equality included) and the original is in
  the store, the task stores the entry with \<^verbatim>\<open>new RawSource(z)\<close> as output source and the
  derived asset is in the store under the new filename with that source.
\<close>

theorem ratio_policy:
  assumes "out_source (c_output c) = None"
    and "c_buffer c = Some buffer"
    and "(case out_compressed (c_output c) of
            Some z' \<Rightarrow> Inr z'
          | None \<Rightarrow> runCompressionAlgorithm P buffer) = Inr z"
  shows "(js_gt (js_div_len (length z) (length buffer)) (minRatio (opts P)) \<longrightarrow>
            task w P c st =
              (st \<lparr> cache := (cache st)(c_cacheItem c \<mapsto>
                       \<lparr> out_compressed = Some z, out_source = None \<rparr>) \<rparr>, None)
            \<and> assets (fst (task w P c st)) = assets st)
       \<and> (js_le (js_div_len (length z) (length buffer)) (minRatio (opts P)) \<and>
          assets st (c_name c) \<noteq> None \<longrightarrow>
            (\<exists>st'. task w P c st = (st', None)
               \<and> cache st' = (cache st)(c_cacheItem c \<mapsto>
                       (c_output c) \<lparr> out_compressed := Some z, out_source := Some (RawSource z) \<rparr>)
               \<and> assets st' (getPath w (filename (opts P)) (c_name c))
                    = Some \<lparr> a_source = RawSource z, a_info = newInfo (opts P) (c_info c) \<rparr>))"
proof (intro conjI impI)
  assume g: "js_gt (js_div_len (length z) (length buffer)) (minRatio (opts P))"
  show t: "task w P c st =
              (st \<lparr> cache := (cache st)(c_cacheItem c \<mapsto>
                       \<lparr> out_compressed = Some z, out_source = None \<rparr>) \<rparr>, None)"
    using assms g by (simp add: task_def storePromise_def)
  show "assets (fst (task w P c st)) = assets st"
    by (simp add: t)
next
  assume a: "js_le (js_div_len (length z) (length buffer)) (minRatio (opts P)) \<and>
          assets st (c_name c) \<noteq> None"
  let ?out = "(c_output c) \<lparr> out_compressed := Some z, out_source := Some (RawSource z) \<rparr>"
  let ?st1 = "storePromise (c_cacheItem c) ?out st"
  from a have ng: "\<not> js_gt (js_div_len (length z) (length buffer)) (minRatio (opts P))"
    by (simp add: js_le_not_gt)
  have t: "task w P c st = emit_output w P c (RawSource z) ?st1"
    using assms ng by (simp add: task_def Let_def)
  have p: "assets ?st1 (c_name c) \<noteq> None" using a by (simp add: storePromise_def)
  from emit_output_present [OF p, of w P "RawSource z"]
  show "\<exists>st'. task w P c st = (st', None)
               \<and> cache st' = (cache st)(c_cacheItem c \<mapsto> ?out)
               \<and> assets st' (getPath w (filename (opts P)) (c_name c))
                    = Some \<lparr> a_source = RawSource z, a_info = newInfo (opts P) (c_info c) \<rparr>"
    by (auto simp: t storePromise_def)
qed

theorem ratio_policy_witness:
  "task example_webpack example_plugin (example_candidate ''aaaa'') (one_asset ''aaaa'') =
     ((one_asset ''aaaa'') \<lparr> cache := [c_cacheItem (example_candidate ''aaaa'') \<mapsto>
          \<lparr> out_compressed = Some ''aaaa'', out_source = None \<rparr>] \<rparr>, None)
   \<and> (\<exists>st'. task example_webpack example_plugin (example_candidate ''aaaaaaaaaa'')
               (one_asset ''aaaaaaaaaa'') = (st', None)
          \<and> cache st' (c_cacheItem (example_candidate ''aaaaaaaaaa''))
               = Some \<lparr> out_compressed = Some ''aaaa'', out_source = Some (RawSource ''aaaa'') \<rparr>
          \<and> assets st' ''app.js.gz''
               = Some \<lparr> a_source = RawSource ''aaaa'',
                        a_info = \<lparr> info_compressed = True, info_immutable = False,
                                   info_related = None \<rparr> \<rparr>)"
proof -
  have s: "out_source (c_output (example_candidate b)) = None"
    "c_buffer (example_candidate b) = Some b"
    "out_compressed (c_output (example_candidate b)) = None" for b
    by (simp_all add: example_candidate_def empty_output_def)
  have r4: "(case out_compressed (c_output (example_candidate ''aaaa'')) of
            Some z' \<Rightarrow> Inr z'
          | None \<Rightarrow> runCompressionAlgorithm example_plugin ''aaaa'') = Inr ''aaaa''"
    by (simp add: s example_run_4)
  have r10: "(case out_compressed (c_output (example_candidate ''aaaaaaaaaa'')) of
            Some z' \<Rightarrow> Inr z'
          | None \<Rightarrow> runCompressionAlgorithm example_plugin ''aaaaaaaaaa'') = Inr ''aaaa''"
    by (simp add: s example_run_10)
  have g: "js_gt (js_div_len (length ''aaaa'') (length ''aaaa'')) (minRatio (opts example_plugin))"
    by (simp add: js_div_len_def example_plugin_def)
  have l: "js_le (js_div_len (length ''aaaa'') (length ''aaaaaaaaaa'')) (minRatio (opts example_plugin))"
    by (simp add: js_div_len_def example_plugin_def)
  have p: "assets (one_asset ''aaaaaaaaaa'') (c_name (example_candidate ''aaaaaaaaaa'')) \<noteq> None"
    by (simp add: one_asset_def example_candidate_def)
  have n: "getPath example_webpack (filename (opts example_plugin)) (c_name (example_candidate b))
      = ''app.js.gz''" for b
    by (simp add: example_webpack_def example_plugin_def example_getPath_def example_candidate_def)
  have i: "newInfo (opts example_plugin) (c_info (example_candidate b)) =
      \<lparr> info_compressed = True, info_immutable = False, info_related = None \<rparr>" for b
    by (simp add: newInfo_def example_candidate_def plain_info_def)
  have c0: "cache (one_asset b) = Map.empty" for b by (simp add: one_asset_def)
  from ratio_policy [OF s(1) s(2) r4, of example_webpack "one_asset ''aaaa''"] g
  have 1: "task example_webpack example_plugin (example_candidate ''aaaa'') (one_asset ''aaaa'') =
     ((one_asset ''aaaa'') \<lparr> cache := [c_cacheItem (example_candidate ''aaaa'') \<mapsto>
          \<lparr> out_compressed = Some ''aaaa'', out_source = None \<rparr>] \<rparr>, None)"
    by (simp add: c0)
  from ratio_policy [OF s(1) s(2) r10, of example_webpack "one_asset ''aaaaaaaaaa''"] l p
  obtain st' where 2: "task example_webpack example_plugin (example_candidate ''aaaaaaaaaa'')
               (one_asset ''aaaaaaaaaa'') = (st', None)"
     "cache st' = (cache (one_asset ''aaaaaaaaaa''))(c_cacheItem (example_candidate ''aaaaaaaaaa'') \<mapsto>
         (c_output (example_candidate ''aaaaaaaaaa''))
           \<lparr> out_compressed := Some ''aaaa'', out_source := Some (RawSource ''aaaa'') \<rparr>)"
     "assets st' (getPath example_webpack (filename (opts example_plugin)) (c_name (example_candidate ''aaaaaaaaaa'')))
        = Some \<lparr> a_source = RawSource ''aaaa'',
                 a_info = newInfo (opts example_plugin) (c_info (example_candidate ''aaaaaaaaaa'')) \<rparr>"
    by blast
  have o: "(c_output (example_candidate ''aaaaaaaaaa''))
           \<lparr> out_compressed := Some ''aaaa'', out_source := Some (RawSource ''aaaa'') \<rparr>
       = \<lparr> out_compressed = Some ''aaaa'', out_source = Some (RawSource ''aaaa'') \<rparr>"
    by (simp add: example_candidate_def empty_output_def)
  from 2 have 3: "cache st' (c_cacheItem (example_candidate ''aaaaaaaaaa''))
               = Some \<lparr> out_compressed = Some ''aaaa'', out_source = Some (RawSource ''aaaa'') \<rparr>"
    by (simp add: o)
  from 2(3) have 4: "assets st' ''app.js.gz'' = Some \<lparr> a_source = RawSource ''aaaa'',
                        a_info = \<lparr> info_compressed = True, info_immutable = False,
                                   info_related = None \<rparr> \<rparr>"
    by (simp add: n i)
  from 1 2(1) 3 4 show ?thesis by blast
qed

section \<open>What happens to the original asset\<close>

text \<open>
  Claim C2, at a concrete input. The asset \<^verbatim>\<open>app.js\<close> is accepted (4 bytes out of 10) and
  \<^verbatim>\<open>deleteOriginalAssets\<close> is a predicate that returns false. After the pass the original
  is in the store, the derived asset \<^verbatim>\<open>app.js.gz\<close> is in the store, and the original's
  metadata has no relation at all: the \<^verbatim>\<open>updateAsset\<close> that sets the relation is in the
  \<^verbatim>\<open>else\<close> branch of \<^verbatim>\<open>if (this.options.deleteOriginalAssets)\<close>, which a function does
  not reach. With \<^verbatim>\<open>deleteOriginalAssets = false\<close> the same asset gets the relation
  \<^verbatim>\<open>gzipped\<close> to \<^verbatim>\<open>app.js.gz\<close>.
\<close>

theorem predicate_false_leaves_no_relation:
  "(let st' = fst (compress example_webpack
          (example_plugin \<lparr> opts := (opts example_plugin)
              \<lparr> deleteOriginalAssets := DelFunction (\<lambda>name. False) \<rparr> \<rparr>)
          [''app.js''] (one_asset ''aaaaaaaaaa''))
    in assets st' ''app.js'' =
         Some \<lparr> a_source = RawSource ''aaaaaaaaaa'',
                a_info = \<lparr> info_compressed = False, info_immutable = False,
                           info_related = None \<rparr> \<rparr>
     \<and> assets st' ''app.js.gz'' =
         Some \<lparr> a_source = RawSource ''aaaa'',
                a_info = \<lparr> info_compressed = True, info_immutable = False,
                           info_related = None \<rparr> \<rparr>)
   \<and> (let st' = fst (compress example_webpack example_plugin [''app.js''] (one_asset ''aaaaaaaaaa''))
      in assets st' ''app.js'' =
         Some \<lparr> a_source = RawSource ''aaaaaaaaaa'',
                a_info = \<lparr> info_compressed = False, info_immutable = False,
                           info_related = Some [''gzipped'' \<mapsto> Some ''app.js.gz''] \<rparr> \<rparr>)"
  by (simp add: compress_def prepare_def one_asset_def example_plugin_def example_webpack_def
      plain_info_def related_truthy_def relatedName_def getItemCache_def getPromise_def
      serialize_algorithm_def source_buffer_def empty_output_def Let_def
      task_def runCompressionAlgorithm_def example_algorithm_def js_div_len_def
      storePromise_def emit_output_def dispose_original_def emitAsset_def newInfo_def
      example_getPath_def updateAsset_def)

section \<open>Cached output\<close>

text \<open>
  Claim C3 as stated fails: with the realized output of \<^verbatim>\<open>app.js\<close> in the cache, the
  pass puts \<^verbatim>\<open>app.js.gz\<close> into the store, where it was not, and changes the metadata of
  \<^verbatim>\<open>app.js\<close>.
\<close>

theorem cached_output_is_emitted:
  "assets (cached_asset ''aaaaaaaaaa'' ''aaaa'') ''app.js.gz'' = None
   \<and> assets (fst (compress example_webpack example_plugin [''app.js'']
                  (cached_asset ''aaaaaaaaaa'' ''aaaa''))) ''app.js.gz''
       = Some \<lparr> a_source = RawSource ''aaaa'',
                a_info = \<lparr> info_compressed = True, info_immutable = False,
                           info_related = None \<rparr> \<rparr>
   \<and> assets (fst (compress example_webpack example_plugin [''app.js'']
                  (cached_asset ''aaaaaaaaaa'' ''aaaa''))) ''app.js''
       \<noteq> assets (cached_asset ''aaaaaaaaaa'' ''aaaa'') ''app.js''"
  by (simp add: compress_def prepare_def one_asset_def cached_asset_def example_plugin_def
      example_webpack_def
      plain_info_def related_truthy_def relatedName_def getItemCache_def getPromise_def
      serialize_algorithm_def source_buffer_def empty_output_def Let_def
      task_def emit_output_def dispose_original_def emitAsset_def newInfo_def
      example_getPath_def updateAsset_def)

lemma emit_output_buffer:
  "emit_output w P (c \<lparr> c_buffer := b \<rparr>) src st = emit_output w P c src st"
  by (cases "deleteOriginalAssets (opts P)")
     (auto simp: emit_output_def dispose_original_def Let_def split: bool.splits sum.splits)

lemma emit_output_run_algorithm:
  "emit_output w (P \<lparr> run_algorithm := f \<rparr>) c src st = emit_output w P c src st"
  by (simp add: emit_output_def)

text \<open>
  Claim C3, amended. A task whose cache entry has an output source runs no compression
  and writes neither cache nor errors: it is the emission of the cached source, whatever
  the algorithm and the buffer are. With the original in the store, the task succeeds and
  the derived asset is in the store under the new filename with the cached source.
\<close>

theorem cached_output_task:
  assumes "out_source (c_output c) = Some src"
  shows "task w P c st = emit_output w P c src st
       \<and> task w (P \<lparr> run_algorithm := f \<rparr>) (c \<lparr> c_buffer := b \<rparr>) st = task w P c st
       \<and> cache (fst (task w P c st)) = cache st
       \<and> errors (fst (task w P c st)) = errors st
       \<and> (assets st (c_name c) \<noteq> None \<longrightarrow>
            snd (task w P c st) = None \<and>
            assets (fst (task w P c st)) (getPath w (filename (opts P)) (c_name c))
              = Some \<lparr> a_source = src, a_info = newInfo (opts P) (c_info c) \<rparr>)"
proof -
  have t: "task w P c st = emit_output w P c src st"
    using assms by (simp add: task_def)
  have t': "task w (P \<lparr> run_algorithm := f \<rparr>) (c \<lparr> c_buffer := b \<rparr>) st = emit_output w P c src st"
    using assms by (simp add: task_def emit_output_buffer emit_output_run_algorithm)
  have c: "cache (fst (emit_output w P c src st)) = cache st
       \<and> errors (fst (emit_output w P c src st)) = errors st"
    by (auto simp: emit_output_def dispose_original_def updateAsset_def deleteAsset_def
        emitAsset_def Let_def
        split: deleteOriginalAssets.splits bool.splits option.splits sum.splits)
  have e: "assets st (c_name c) \<noteq> None \<longrightarrow>
            snd (task w P c st) = None \<and>
            assets (fst (task w P c st)) (getPath w (filename (opts P)) (c_name c))
              = Some \<lparr> a_source = src, a_info = newInfo (opts P) (c_info c) \<rparr>"
  proof
    assume p: "assets st (c_name c) \<noteq> None"
    from emit_output_present [OF p, of w P src] show "snd (task w P c st) = None \<and>
            assets (fst (task w P c st)) (getPath w (filename (opts P)) (c_name c))
              = Some \<lparr> a_source = src, a_info = newInfo (opts P) (c_info c) \<rparr>"
      by (auto simp: t)
  qed
  from t t' c e show ?thesis by simp
qed

theorem cached_output_task_witness:
  "(let c = (example_candidate ''aaaaaaaaaa'')
              \<lparr> c_buffer := None,
                c_output := \<lparr> out_compressed = Some ''aaaa'', out_source = Some (RawSource ''aaaa'') \<rparr> \<rparr>;
        st = cached_asset ''aaaaaaaaaa'' ''aaaa''
    in task example_webpack (example_plugin \<lparr> run_algorithm := (\<lambda>b os. Inl (Error ''never called'')) \<rparr>)
         (c \<lparr> c_buffer := Some ''other'' \<rparr>) st = task example_webpack example_plugin c st
     \<and> cache (fst (task example_webpack example_plugin c st)) = cache st
     \<and> snd (task example_webpack example_plugin c st) = None
     \<and> assets (fst (task example_webpack example_plugin c st)) ''app.js.gz''
         = Some \<lparr> a_source = RawSource ''aaaa'',
                  a_info = \<lparr> info_compressed = True, info_immutable = False,
                             info_related = None \<rparr> \<rparr>)"
proof -
  let ?c = "(example_candidate ''aaaaaaaaaa'')
              \<lparr> c_buffer := None,
                c_output := \<lparr> out_compressed = Some ''aaaa'', out_source = Some (RawSource ''aaaa'') \<rparr> \<rparr>"
  let ?st = "cached_asset ''aaaaaaaaaa'' ''aaaa''"
  have o: "out_source (c_output ?c) = Some (RawSource ''aaaa'')" by simp
  have n: "assets ?st (c_name ?c) \<noteq> None"
    by (simp add: cached_asset_def one_asset_def example_candidate_def)
  have g: "getPath example_webpack (filename (opts example_plugin)) (c_name ?c) = ''app.js.gz''"
    by (simp add: example_webpack_def example_plugin_def example_getPath_def example_candidate_def)
  have i: "newInfo (opts example_plugin) (c_info ?c) =
      \<lparr> info_compressed = True, info_immutable = False, info_related = None \<rparr>"
    by (simp add: newInfo_def example_candidate_def plain_info_def)
  note t = cached_output_task [OF o, of example_webpack example_plugin ?st
      "\<lambda>b os. Inl (Error ''never called'')" "Some ''other''"]
  from t n have 1: "task example_webpack (example_plugin \<lparr> run_algorithm := (\<lambda>b os. Inl (Error ''never called'')) \<rparr>)
         (?c \<lparr> c_buffer := Some ''other'' \<rparr>) ?st = task example_webpack example_plugin ?c ?st"
    and 2: "cache (fst (task example_webpack example_plugin ?c ?st)) = cache ?st"
    and 3: "snd (task example_webpack example_plugin ?c ?st) = None"
    and 4: "assets (fst (task example_webpack example_plugin ?c ?st))
              (getPath example_webpack (filename (opts example_plugin)) (c_name ?c))
         = Some \<lparr> a_source = RawSource ''aaaa'',
                  a_info = newInfo (opts example_plugin) (c_info ?c) \<rparr>"
    by blast+
  from 4 have 5: "assets (fst (task example_webpack example_plugin ?c ?st)) ''app.js.gz''
         = Some \<lparr> a_source = RawSource ''aaaa'',
                  a_info = \<lparr> info_compressed = True, info_immutable = False,
                             info_related = None \<rparr> \<rparr>"
    by (simp only: g i)
  from 1 2 3 5 show ?thesis unfolding Let_def by blast
qed

text \<open>
  Claim C10. For an asset that passes the three filters of the selection: when the cache
  has an entry with an output source, the asset is selected with no buffer read,
  whatever its length and the threshold, and its task puts the derived asset with the
  cached source into the store; when the cache has no entry or an entry without output
  source, the buffer is read and the asset is dropped exactly when the buffer is shorter
  than the threshold.
\<close>

theorem threshold_only_without_cached_source:
  assumes "assets st name = Some a"
    and "\<not> info_compressed (a_info a)"
    and "matchObject w (opts P) name"
    and "\<not> related_truthy (a_info a) (relatedName w (opts P))"
  shows "(cache st (getItemCache (opts P) name (a_source a)) = Some out \<and> out_source out = Some src \<longrightarrow>
            (\<exists>c. prepare w P st name = Inr (Some c) \<and> c_name c = name \<and> c_buffer c = None
                \<and> snd (task w P c st) = None
                \<and> assets (fst (task w P c st)) (getPath w (filename (opts P)) name)
                     = Some \<lparr> a_source = src, a_info = newInfo (opts P) (a_info a) \<rparr>))
       \<and> ((case cache st (getItemCache (opts P) name (a_source a)) of
              None \<Rightarrow> True | Some out \<Rightarrow> out_source out = None) \<longrightarrow>
            (if length (source_buffer (a_source a)) < threshold (opts P)
             then prepare w P st name = Inr None
             else (\<exists>c. prepare w P st name = Inr (Some c)
                     \<and> c_buffer c = Some (source_buffer (a_source a)))))"
proof (intro conjI impI)
  assume h: "cache st (getItemCache (opts P) name (a_source a)) = Some out \<and> out_source out = Some src"
  let ?c = "\<lparr> c_name = name, c_source = a_source a, c_info = a_info a,
              c_buffer = None, c_output = out,
              c_cacheItem = getItemCache (opts P) name (a_source a),
              c_relatedName = relatedName w (opts P) \<rparr>"
  have p: "prepare w P st name = Inr (Some ?c)"
    using assms h by (simp add: prepare_def getPromise_def Let_def)
  have o: "out_source (c_output ?c) = Some src" using h by simp
  have n: "assets st (c_name ?c) \<noteq> None" using assms(1) by simp
  have e: "snd (task w P ?c st) = None
             \<and> assets (fst (task w P ?c st)) (getPath w (filename (opts P)) (c_name ?c))
                 = Some \<lparr> a_source = src, a_info = newInfo (opts P) (c_info ?c) \<rparr>"
  proof -
    have t: "task w P ?c st = emit_output w P ?c src st"
      using o by (simp add: task_def)
    from emit_output_present [OF n, of w P src] show ?thesis
      by (auto simp: t)
  qed
  show "\<exists>c. prepare w P st name = Inr (Some c) \<and> c_name c = name \<and> c_buffer c = None
                \<and> snd (task w P c st) = None
                \<and> assets (fst (task w P c st)) (getPath w (filename (opts P)) name)
                     = Some \<lparr> a_source = src, a_info = newInfo (opts P) (a_info a) \<rparr>"
    using p e by (intro exI [of _ ?c]) simp
next
  assume h: "case cache st (getItemCache (opts P) name (a_source a)) of
              None \<Rightarrow> True | Some out \<Rightarrow> out_source out = None"
  show "if length (source_buffer (a_source a)) < threshold (opts P)
             then prepare w P st name = Inr None
             else (\<exists>c. prepare w P st name = Inr (Some c)
                     \<and> c_buffer c = Some (source_buffer (a_source a)))"
    using assms h
    by (auto simp: prepare_def getPromise_def Let_def empty_output_def split: option.splits)
qed

theorem threshold_only_without_cached_source_witness:
  "(let P = example_plugin \<lparr> opts := (opts example_plugin) \<lparr> threshold := 100 \<rparr> \<rparr>
    in length ''aaaaaaaaaa'' < threshold (opts P)
     \<and> (\<exists>c. prepare example_webpack P (cached_asset ''aaaaaaaaaa'' ''aaaa'') ''app.js'' = Inr (Some c)
            \<and> c_buffer c = None
            \<and> assets (fst (task example_webpack P c (cached_asset ''aaaaaaaaaa'' ''aaaa''))) ''app.js.gz''
                = Some \<lparr> a_source = RawSource ''aaaa'',
                         a_info = \<lparr> info_compressed = True, info_immutable = False,
                                    info_related = None \<rparr> \<rparr>)
     \<and> prepare example_webpack P (one_asset ''aaaaaaaaaa'') ''app.js'' = Inr None)"
proof -
  let ?P = "example_plugin \<lparr> opts := (opts example_plugin) \<lparr> threshold := 100 \<rparr> \<rparr>"
  let ?a = "\<lparr> a_source = RawSource ''aaaaaaaaaa'', a_info = plain_info \<rparr>"
  let ?k = "getItemCache (opts ?P) ''app.js'' (a_source ?a)"
  let ?out = "\<lparr> out_compressed = Some ''aaaa'', out_source = Some (RawSource ''aaaa'') \<rparr>"
  have a1: "assets (cached_asset ''aaaaaaaaaa'' ''aaaa'') ''app.js'' = Some ?a"
    by (simp add: cached_asset_def one_asset_def)
  have a2: "assets (one_asset ''aaaaaaaaaa'') ''app.js'' = Some ?a"
    by (simp add: one_asset_def)
  have nc: "\<not> info_compressed (a_info ?a)" by (simp add: plain_info_def)
  have m: "matchObject example_webpack (opts ?P) ''app.js''" by (simp add: example_webpack_def)
  have nr: "\<not> related_truthy (a_info ?a) (relatedName example_webpack (opts ?P))"
    by (simp add: related_truthy_def plain_info_def)
  have k1: "cache (cached_asset ''aaaaaaaaaa'' ''aaaa'') ?k = Some ?out \<and> out_source ?out = Some (RawSource ''aaaa'')"
    by (simp add: cached_asset_def getItemCache_def example_plugin_def serialize_algorithm_def)
  have k2: "(case cache (one_asset ''aaaaaaaaaa'') ?k of None \<Rightarrow> True | Some out \<Rightarrow> out_source out = None)"
    by (simp add: one_asset_def)
  have l: "length (source_buffer (a_source ?a)) < threshold (opts ?P)"
    by (simp add: source_buffer_def)
  have g: "getPath example_webpack (filename (opts ?P)) ''app.js'' = ''app.js.gz''"
    by (simp add: example_webpack_def example_plugin_def example_getPath_def)
  have i: "newInfo (opts ?P) (a_info ?a) =
      \<lparr> info_compressed = True, info_immutable = False, info_related = None \<rparr>"
    by (simp add: newInfo_def plain_info_def)
  from threshold_only_without_cached_source [OF a1 nc m nr, of ?out "RawSource ''aaaa''"] k1
  obtain c where 1: "prepare example_webpack ?P (cached_asset ''aaaaaaaaaa'' ''aaaa'') ''app.js'' = Inr (Some c)"
    "c_buffer c = None"
    "assets (fst (task example_webpack ?P c (cached_asset ''aaaaaaaaaa'' ''aaaa'')))
        (getPath example_webpack (filename (opts ?P)) ''app.js'')
      = Some \<lparr> a_source = RawSource ''aaaa'', a_info = newInfo (opts ?P) (a_info ?a) \<rparr>"
    by blast
  from threshold_only_without_cached_source [OF a2 nc m nr] k2 l
  have 2: "prepare example_webpack ?P (one_asset ''aaaaaaaaaa'') ''app.js'' = Inr None"
    by presburger
  have 3: "length ''aaaaaaaaaa'' < threshold (opts ?P)" by simp
  from 1(3) have 4: "assets (fst (task example_webpack ?P c (cached_asset ''aaaaaaaaaa'' ''aaaa''))) ''app.js.gz''
      = Some \<lparr> a_source = RawSource ''aaaa'',
               a_info = \<lparr> info_compressed = True, info_immutable = False,
                          info_related = None \<rparr> \<rparr>"
    by (simp only: g i)
  from 1(1,2) 2 3 4 show ?thesis unfolding Let_def by blast
qed

section \<open>A failing algorithm\<close>

text \<open>
  A task reads the errors of the compilation only to append to them: run on a
  compilation with other errors, it does the same to assets and cache, settles the same
  way, and appends the same errors. So does a list of tasks.
\<close>

lemma dispose_original_errors:
  "dispose_original os c nf (st \<lparr> errors := es \<rparr>) =
     (case dispose_original os c nf st of Inl e \<Rightarrow> Inl e | Inr st1 \<Rightarrow> Inr (st1 \<lparr> errors := es \<rparr>))"
  by (cases "deleteOriginalAssets os")
     (auto simp: dispose_original_def updateAsset_def deleteAsset_def Let_def
       split: bool.splits option.splits)

lemma emit_output_errors:
  "emit_output w P c src (st \<lparr> errors := es \<rparr>) =
     ((fst (emit_output w P c src st)) \<lparr> errors := es \<rparr>, snd (emit_output w P c src st))"
  by (auto simp: emit_output_def dispose_original_errors emitAsset_def Let_def split: sum.splits)

lemma storePromise_errors:
  "storePromise k v (st \<lparr> errors := es \<rparr>) = (storePromise k v st) \<lparr> errors := es \<rparr>"
  by (simp add: storePromise_def)

lemma task_errors:
  "\<exists>new. \<forall>es. task w P c (st \<lparr> errors := es \<rparr>) =
     ((fst (task w P c st)) \<lparr> errors := es @ new \<rparr>, snd (task w P c st))"
proof (cases "out_source (c_output c)")
  case (Some src)
  then have "\<forall>es. task w P c (st \<lparr> errors := es \<rparr>) =
     ((fst (task w P c st)) \<lparr> errors := es @ [] \<rparr>, snd (task w P c st))"
    by (simp add: task_def emit_output_errors)
  then show ?thesis by blast
next
  case None
  note src = None
  show ?thesis
  proof (cases "c_buffer c")
    case None
    with src have "\<forall>es. task w P c (st \<lparr> errors := es \<rparr>) =
       ((fst (task w P c st)) \<lparr> errors := es @ [] \<rparr>, snd (task w P c st))"
      by (simp add: task_def)
    then show ?thesis by blast
  next
    case (Some buffer)
    note buf = Some
    let ?r = "(case out_compressed (c_output c) of
                 Some z \<Rightarrow> Inr z
               | None \<Rightarrow> runCompressionAlgorithm P buffer)"
    show ?thesis
    proof (cases ?r)
      case (Inl e)
      with src buf have "\<forall>es. task w P c (st \<lparr> errors := es \<rparr>) =
         ((fst (task w P c st)) \<lparr> errors := es @ [e] \<rparr>, snd (task w P c st))"
        by (simp add: task_def)
      then show ?thesis by blast
    next
      case (Inr z)
      with src buf have "\<forall>es. task w P c (st \<lparr> errors := es \<rparr>) =
         ((fst (task w P c st)) \<lparr> errors := es @ [] \<rparr>, snd (task w P c st))"
        by (simp add: task_def Let_def storePromise_errors emit_output_errors)
      then show ?thesis by blast
    qed
  qed
qed

lemma run_tasks_errors:
  "\<exists>new. \<forall>es. run_tasks w P cs (st \<lparr> errors := es \<rparr>) =
     ((fst (run_tasks w P cs st)) \<lparr> errors := es @ new \<rparr>, snd (run_tasks w P cs st))"
proof (induction cs arbitrary: st)
  case Nil
  have "\<forall>es. run_tasks w P [] (st \<lparr> errors := es \<rparr>) =
     ((fst (run_tasks w P [] st)) \<lparr> errors := es @ [] \<rparr>, snd (run_tasks w P [] st))"
    by simp
  then show ?case by blast
next
  case (Cons c cs)
  obtain n1 where n1: "\<And>es. task w P c (st \<lparr> errors := es \<rparr>) =
     ((fst (task w P c st)) \<lparr> errors := es @ n1 \<rparr>, snd (task w P c st))"
    using task_errors [of w P c st] by blast
  obtain n2 where n2: "\<And>es. run_tasks w P cs ((fst (task w P c st)) \<lparr> errors := es \<rparr>) =
     ((fst (run_tasks w P cs (fst (task w P c st)))) \<lparr> errors := es @ n2 \<rparr>,
      snd (run_tasks w P cs (fst (task w P c st))))"
    using Cons.IH [of "fst (task w P c st)"] by blast
  have "\<forall>es. run_tasks w P (c # cs) (st \<lparr> errors := es \<rparr>) =
     ((fst (run_tasks w P (c # cs) st)) \<lparr> errors := es @ (n1 @ n2) \<rparr>,
      snd (run_tasks w P (c # cs) st))"
    by (auto simp: n1 n2 split: prod.splits option.splits)
  then show ?case by blast
qed

lemma run_tasks_append:
  "run_tasks w P (xs @ ys) st =
     (case run_tasks w P xs st of
        (s1, r1) \<Rightarrow>
          (case run_tasks w P ys s1 of
             (s2, r2) \<Rightarrow> (s2, (case r1 of Some e \<Rightarrow> Some e | None \<Rightarrow> r2))))"
  by (induction xs arbitrary: st) (auto split: prod.splits option.splits)

lemma compress_two_assets:
  "compress example_webpack example_plugin [''empty.js'', ''app.js''] two_assets =
     run_tasks example_webpack example_plugin
       [empty_candidate, example_candidate ''aaaaaaaaaa''] two_assets"
  by (simp add: compress_def prepare_def two_assets_def example_plugin_def example_webpack_def
      plain_info_def related_truthy_def relatedName_def getItemCache_def getPromise_def
      serialize_algorithm_def source_buffer_def empty_output_def example_candidate_def
      empty_candidate_def Let_def)

text \<open>
  Claim C4. A task whose algorithm fails with \<open>e\<close> appends \<open>e\<close> to the errors of the
  compilation and does nothing else; its promise is fulfilled. In a pass, the tasks
  after it run on that compilation, and the result of the pass is the state after the
  last of them. Against the same pass without the failing task, the result has the same
  assets, the same cache and the same outcome: the only difference is the error \<open>e\<close>,
  at its place in the list of errors.
\<close>

theorem failure_is_isolated:
  assumes "out_source (c_output c) = None"
    and "out_compressed (c_output c) = None"
    and "c_buffer c = Some buffer"
    and "runCompressionAlgorithm P buffer = Inl e"
  shows "task w P c st = (st \<lparr> errors := errors st @ [e] \<rparr>, None)
       \<and> run_tasks w P (cs1 @ c # cs2) st =
           (case run_tasks w P cs1 st of
              (s1, r1) \<Rightarrow>
                (case run_tasks w P cs2 (s1 \<lparr> errors := errors s1 @ [e] \<rparr>) of
                   (s2, r2) \<Rightarrow> (s2, (case r1 of Some x \<Rightarrow> Some x | None \<Rightarrow> r2))))
       \<and> (\<exists>pre post.
             errors (fst (run_tasks w P (cs1 @ cs2) st)) = pre @ post
           \<and> fst (run_tasks w P (cs1 @ c # cs2) st) =
               (fst (run_tasks w P (cs1 @ cs2) st)) \<lparr> errors := pre @ e # post \<rparr>
           \<and> snd (run_tasks w P (cs1 @ c # cs2) st) = snd (run_tasks w P (cs1 @ cs2) st))"
proof -
  have t: "task w P c s = (s \<lparr> errors := errors s @ [e] \<rparr>, None)" for s
    using assms by (simp add: task_def)
  obtain s1 r1 where r1: "run_tasks w P cs1 st = (s1, r1)" by (cases "run_tasks w P cs1 st")
  have seq: "run_tasks w P (cs1 @ c # cs2) st =
           (case run_tasks w P cs1 st of
              (s1, r1) \<Rightarrow>
                (case run_tasks w P cs2 (s1 \<lparr> errors := errors s1 @ [e] \<rparr>) of
                   (s2, r2) \<Rightarrow> (s2, (case r1 of Some x \<Rightarrow> Some x | None \<Rightarrow> r2))))"
    by (simp add: run_tasks_append t split: prod.splits option.splits)
  obtain new where new: "\<And>es. run_tasks w P cs2 (s1 \<lparr> errors := es \<rparr>) =
     ((fst (run_tasks w P cs2 s1)) \<lparr> errors := es @ new \<rparr>, snd (run_tasks w P cs2 s1))"
    using run_tasks_errors [of w P cs2 s1] by blast
  have same: "s1 \<lparr> errors := errors s1 \<rparr> = s1" by simp
  from new [of "errors s1"] have e0: "errors (fst (run_tasks w P cs2 s1)) = errors s1 @ new"
    by (simp add: same) (metis compilation.select_convs(3) compilation.surjective compilation.update_convs(3) fst_conv)
  have r0: "run_tasks w P (cs1 @ cs2) st =
      (fst (run_tasks w P cs2 s1), (case r1 of Some x \<Rightarrow> Some x | None \<Rightarrow> snd (run_tasks w P cs2 s1)))"
    by (auto simp: run_tasks_append r1 split: prod.splits option.splits)
  have r: "run_tasks w P (cs1 @ c # cs2) st =
      ((fst (run_tasks w P cs2 s1)) \<lparr> errors := (errors s1 @ [e]) @ new \<rparr>,
       (case r1 of Some x \<Rightarrow> Some x | None \<Rightarrow> snd (run_tasks w P cs2 s1)))"
    by (simp add: seq r1 new)
  have "errors (fst (run_tasks w P (cs1 @ cs2) st)) = errors s1 @ new
           \<and> fst (run_tasks w P (cs1 @ c # cs2) st) =
               (fst (run_tasks w P (cs1 @ cs2) st)) \<lparr> errors := errors s1 @ e # new \<rparr>
           \<and> snd (run_tasks w P (cs1 @ c # cs2) st) = snd (run_tasks w P (cs1 @ cs2) st)"
    by (simp add: r0 r e0)
  then have ex: "\<exists>pre post.
             errors (fst (run_tasks w P (cs1 @ cs2) st)) = pre @ post
           \<and> fst (run_tasks w P (cs1 @ c # cs2) st) =
               (fst (run_tasks w P (cs1 @ cs2) st)) \<lparr> errors := pre @ e # post \<rparr>
           \<and> snd (run_tasks w P (cs1 @ c # cs2) st) = snd (run_tasks w P (cs1 @ cs2) st)"
    by blast
  from t [of st] seq ex show ?thesis by blast
qed


theorem failure_is_isolated_witness:
  "(let r = compress example_webpack example_plugin [''empty.js'', ''app.js''] two_assets
    in errors (fst r) = [Error ''unexpected end of input'']
     \<and> snd r = None
     \<and> assets (fst r) ''empty.js.gz'' = None
     \<and> assets (fst r) ''app.js.gz'' =
         Some \<lparr> a_source = RawSource ''aaaa'',
                a_info = \<lparr> info_compressed = True, info_immutable = False,
                           info_related = None \<rparr> \<rparr>)"
proof -
  let ?e = "Error ''unexpected end of input''"
  let ?c = "example_candidate ''aaaaaaaaaa''"
  have 1: "out_source (c_output empty_candidate) = None"
    and 2: "out_compressed (c_output empty_candidate) = None"
    and 3: "c_buffer empty_candidate = Some []"
    by (simp_all add: empty_candidate_def empty_output_def)
  have 4: "runCompressionAlgorithm example_plugin [] = Inl ?e"
    by (simp add: runCompressionAlgorithm_def example_plugin_def example_algorithm_def)
  from failure_is_isolated [OF 1 2 3 4, of example_webpack two_assets "[]" "[?c]"]
  have r: "run_tasks example_webpack example_plugin [empty_candidate, ?c] two_assets =
      (case run_tasks example_webpack example_plugin [?c]
              (two_assets \<lparr> errors := errors two_assets @ [?e] \<rparr>) of
         (s2, r2) \<Rightarrow> (s2, r2))"
    by simp
  have t: "task example_webpack example_plugin ?c (two_assets \<lparr> errors := errors two_assets @ [?e] \<rparr>)
      = (two_assets \<lparr> errors := [?e],
           cache := [c_cacheItem ?c \<mapsto> \<lparr> out_compressed = Some ''aaaa'',
                                          out_source = Some (RawSource ''aaaa'') \<rparr>],
           assets := (assets two_assets)
             (''app.js'' \<mapsto> \<lparr> a_source = RawSource ''aaaaaaaaaa'',
                              a_info = plain_info \<lparr> info_related := Some [''gzipped'' \<mapsto> Some ''app.js.gz''] \<rparr> \<rparr>,
              ''app.js.gz'' \<mapsto> \<lparr> a_source = RawSource ''aaaa'',
                a_info = \<lparr> info_compressed = True, info_immutable = False,
                           info_related = None \<rparr> \<rparr>) \<rparr>, None)"
    by (simp add: task_def two_assets_def example_plugin_def example_webpack_def
      plain_info_def empty_output_def example_candidate_def Let_def
      runCompressionAlgorithm_def example_algorithm_def js_div_len_def
      storePromise_def emit_output_def dispose_original_def emitAsset_def newInfo_def
      example_getPath_def updateAsset_def)
  have run: "run_tasks example_webpack example_plugin [?c]
              (two_assets \<lparr> errors := errors two_assets @ [?e] \<rparr>) =
       (fst (task example_webpack example_plugin ?c (two_assets \<lparr> errors := errors two_assets @ [?e] \<rparr>)),
        snd (task example_webpack example_plugin ?c (two_assets \<lparr> errors := errors two_assets @ [?e] \<rparr>)))"
    by (simp split: prod.splits option.splits)
  have full: "compress example_webpack example_plugin [''empty.js'', ''app.js''] two_assets =
      (fst (task example_webpack example_plugin ?c (two_assets \<lparr> errors := errors two_assets @ [?e] \<rparr>)),
       None)"
    by (simp only: compress_two_assets r run t prod.case snd_conv)
  show ?thesis
    unfolding Let_def full fst_conv snd_conv t
    by (simp add: two_assets_def)
qed

section \<open>Running the pass twice\<close>

subsection \<open>The effect of one task on assets and cache\<close>






subsection \<open>The selection\<close>










subsection \<open>What a task leaves behind\<close>












subsection \<open>A list of tasks\<close>











subsection \<open>Tasks that emit nothing\<close>







subsection \<open>The second pass\<close>






end
